theory Spec2Isabelle
  imports Complex_Main
begin

section \<open>Retirement planning calculations (calculations.py)\<close>

text \<open>
  A shallow embedding of the calculation module. Python's \<open>float\<close> values are
  modelled as exact reals (the specification's data model speaks of reals as well), and
  Python's \<open>int\<close> values are \<open>int\<close>. A division by zero, the one exception
  the arithmetic of the module raises in exact arithmetic, is a value of the result type
  \<open>py_error + 'a\<close>.

  What IEEE doubles add is outside the model: rounding error, infinities and NaN, and
  two ways of failing. The operator \<open>**\<close> raises \<open>OverflowError\<close> when its result
  leaves the range of a double (\<open>1.06 ** 12200\<close>), and a sum \<open>1 + monthly_rate\<close>
  that rounds to \<open>1.0\<close> makes the divisor of the annuity formula zero. The model
  therefore describes the runs of the program that return, and the values they return.
  The properties of the individual formulas and of degenerate and shifted horizons are
  stated for results that are returned, and say nothing on which inputs make the source
  fail.
\<close>

subsection \<open>Data model\<close>

datatype py_error = ZeroDivisionError

record RetirementInputs =
  current_age :: int
  retirement_age :: int
  life_expectancy :: int
  current_annual_expenses :: real
  current_investments :: real
  current_annual_income :: real
  risk_profile :: string
  dependents :: string
  inflation_rate :: real

text \<open>
  The fields of the result that echo an input carry the prefix \<open>res_\<close>, since a
  field name is a constant of the theory. \<open>monthly_savings_rounded\<close> is annotated
  \<open>float\<close> in the source, but the value stored there is always a Python \<open>int\<close>
  (\<open>0\<close>, or \<open>round(...) * to_nearest\<close>), so the field is an \<open>int\<close> here.
\<close>

record RetirementResult =
  res_current_age :: int
  res_retirement_age :: int
  res_life_expectancy :: int
  years_to_retirement :: int
  retirement_duration :: int
  res_current_annual_expenses :: real
  future_annual_expenses :: real
  corpus_required :: real
  future_investment_value :: real
  corpus_gap :: real
  monthly_savings_required :: real
  monthly_savings_rounded :: int
  expected_return_rate :: real
  res_inflation_rate :: real
  res_risk_profile :: string
  res_current_annual_income :: real
  res_dependents :: string
  income_expense_flag :: bool
  assumptions :: "string list"

subsection \<open>Python built-ins used by the module\<close>

text \<open>\<open>str.lower\<close> on the ASCII letters; every other character is kept.\<close>

definition lower_char :: "char \<Rightarrow> char" where
  "lower_char c =
     (let k = (of_char c :: nat) in if 65 \<le> k \<and> k \<le> 90 then char_of (k + 32) else c)"

definition lower :: "string \<Rightarrow> string" where
  "lower s = map lower_char s"

text \<open>
  \<open>round(x)\<close> with one argument: the nearest integer, a tie going to the even
  neighbour.
\<close>

definition py_round :: "real \<Rightarrow> int" where
  "py_round x =
     (let f = \<lfloor>x\<rfloor>; d = x - of_int f
      in if d < 1 / 2 then f
         else if 1 / 2 < d then f + 1
         else if even f then f else f + 1)"

text \<open>Decimal digits of a natural number, and \<open>str\<close> of an integer.\<close>

fun string_of_nat :: "nat \<Rightarrow> string" where
  "string_of_nat n =
     (if n < 10 then [char_of (48 + n)]
      else string_of_nat (n div 10) @ [char_of (48 + n mod 10)])"

declare string_of_nat.simps [simp del]

definition str_int :: "int \<Rightarrow> string" where
  "str_int k = (if k < 0 then ''-'' else '''') @ string_of_nat (nat \<bar>k\<bar>)"

text \<open>
  The format specification \<open>.0f\<close>: no fractional digits, ties to even, and the sign
  of a negative number kept even when it rounds to zero.
\<close>

definition format_0f :: "real \<Rightarrow> string" where
  "format_0f x = (if x < 0 then ''-'' else '''') @ string_of_nat (nat \<bar>py_round x\<bar>)"

subsection \<open>Rate resolution\<close>

definition rates :: "string \<rightharpoonup> real" where
  "rates =
     [''conservative'' \<mapsto> 0.08,
      ''moderate'' \<mapsto> 0.12,
      ''balanced'' \<mapsto> 0.12,
      ''aggressive'' \<mapsto> 0.15]"

definition get_return_rate :: "string \<Rightarrow> real" where
  "get_return_rate rp = (case rates (lower rp) of Some v \<Rightarrow> v | None \<Rightarrow> 0.12)"

subsection \<open>The formulas\<close>

definition calculate_future_value :: "real \<Rightarrow> real \<Rightarrow> int \<Rightarrow> real" where
  "calculate_future_value present_value rate years =
     (if years \<le> 0 then present_value
      else present_value * ((1 + rate) ^ nat years))"

definition calculate_corpus_for_retirement ::
    "real \<Rightarrow> real \<Rightarrow> real \<Rightarrow> int \<Rightarrow> py_error + real" where
  "calculate_corpus_for_retirement annual_expense_at_retirement return_rate
       infl_rate duration =
     (if duration \<le> 0 then Inr 0
      else
        let g = infl_rate; r = return_rate; n = nat duration;
            pmt = annual_expense_at_retirement
        in if \<bar>r - g\<bar> < 0.0001 then
             (if 1 + r = 0 then Inl ZeroDivisionError
              else Inr (max 0 (pmt * of_nat n / (1 + r))))
           else
             (if 1 + r = 0 then Inl ZeroDivisionError
              else if r - g = 0 then Inl ZeroDivisionError
              else Inr (max 0 (pmt * (1 - ((1 + g) / (1 + r)) ^ n) / (r - g)))))"

definition calculate_monthly_sip :: "real \<Rightarrow> real \<Rightarrow> int \<Rightarrow> py_error + real" where
  "calculate_monthly_sip future_value annual_rate years =
     (if years \<le> 0 then Inr 0
      else if future_value \<le> 0 then Inr 0
      else
        let monthly_rate = annual_rate / 12; months = nat (years * 12)
        in if monthly_rate = 0 then Inr (future_value / of_nat months)
           else if (1 + monthly_rate) ^ months - 1 = 0 then Inl ZeroDivisionError
           else Inr (future_value * (monthly_rate / ((1 + monthly_rate) ^ months - 1))))"

definition round_to_clean_figure :: "real \<Rightarrow> int \<Rightarrow> py_error + int" where
  "round_to_clean_figure amount to_nearest =
     (if amount \<le> 0 then Inr 0
      else
        let to_nearest = (if 50000 < amount then 1000 else to_nearest)
        in if to_nearest = 0 then Inl ZeroDivisionError
           else Inr (py_round (amount / of_int to_nearest) * to_nearest))"

subsection \<open>Plan assembly\<close>

definition make_assumptions :: "RetirementInputs \<Rightarrow> real \<Rightarrow> string list" where
  "make_assumptions inputs expected_return =
     [''Inflation rate: '' @ format_0f (inflation_rate inputs * 100)
        @ ''% per annum (locked)'',
      ''Expected investment return: '' @ format_0f (expected_return * 100)
        @ ''% per annum ('' @ risk_profile inputs @ '' profile)'',
      ''Life expectancy: '' @ str_int (life_expectancy inputs) @ '' years'',
      ''Same return rate ('' @ format_0f (expected_return * 100)
        @ ''%) applied pre- and post-retirement'',
      ''Constant monthly SIP (no step-ups)'',
      ''No tax implications considered'',
      ''No product or fund recommendations included'',
      ''Figures are planning-level estimates, not precise forecasts'']"

definition calculate_retirement_plan :: "RetirementInputs \<Rightarrow> py_error + RetirementResult" where
  "calculate_retirement_plan inputs =
     (let years = retirement_age inputs - current_age inputs;
          duration = life_expectancy inputs - retirement_age inputs;
          expected_return = get_return_rate (risk_profile inputs);
          future_expenses =
            calculate_future_value (current_annual_expenses inputs)
              (inflation_rate inputs) years
      in case calculate_corpus_for_retirement future_expenses expected_return
                (inflation_rate inputs) duration of
           Inl e \<Rightarrow> Inl e
         | Inr corpus \<Rightarrow>
            (let future_investments =
                   calculate_future_value (current_investments inputs) expected_return years;
                 gap = max 0 (corpus - future_investments)
             in case calculate_monthly_sip gap expected_return years of
                  Inl e \<Rightarrow> Inl e
                | Inr monthly_savings \<Rightarrow>
                   (case round_to_clean_figure monthly_savings 500 of
                      Inl e \<Rightarrow> Inl e
                    | Inr rounded \<Rightarrow>
                       Inr \<lparr>res_current_age = current_age inputs,
                            res_retirement_age = retirement_age inputs,
                            res_life_expectancy = life_expectancy inputs,
                            years_to_retirement = years,
                            retirement_duration = duration,
                            res_current_annual_expenses = current_annual_expenses inputs,
                            future_annual_expenses = future_expenses,
                            corpus_required = corpus,
                            future_investment_value = future_investments,
                            corpus_gap = gap,
                            monthly_savings_required = monthly_savings,
                            monthly_savings_rounded = rounded,
                            expected_return_rate = expected_return,
                            res_inflation_rate = inflation_rate inputs,
                            res_risk_profile = risk_profile inputs,
                            res_current_annual_income = current_annual_income inputs,
                            res_dependents = dependents inputs,
                            income_expense_flag =
                              (0 < current_annual_income inputs \<and>
                               current_annual_income inputs < current_annual_expenses inputs),
                            assumptions = make_assumptions inputs expected_return\<rparr>)))"

definition calculate_whatif_scenario ::
    "RetirementInputs \<Rightarrow> int \<Rightarrow> py_error + RetirementResult" where
  "calculate_whatif_scenario base_inputs new_retirement_age =
     (let whatif_inputs =
            \<lparr>current_age = current_age base_inputs,
             retirement_age = new_retirement_age,
             life_expectancy = life_expectancy base_inputs,
             current_annual_expenses = current_annual_expenses base_inputs,
             current_investments = current_investments base_inputs,
             current_annual_income = current_annual_income base_inputs,
             risk_profile = risk_profile base_inputs,
             dependents = dependents base_inputs,
             inflation_rate = inflation_rate base_inputs\<rparr>
      in calculate_retirement_plan whatif_inputs)"

section \<open>Properties\<close>

subsection \<open>Auxiliary facts\<close>

lemma get_return_rate_cases:
  "get_return_rate rp = 0.08 \<or> get_return_rate rp = 0.12 \<or> get_return_rate rp = 0.15"
  by (simp add: get_return_rate_def rates_def)

lemma rate_pos: "0 < get_return_rate rp"
  using get_return_rate_cases [of rp] by auto

lemma corpus_total:
  "\<exists>c. calculate_corpus_for_retirement pmt (get_return_rate rp) g n = Inr c \<and> 0 \<le> c"
  using rate_pos [of rp] by (auto simp: calculate_corpus_for_retirement_def Let_def)

lemma sip_power_gt1:
  fixes r :: real
  assumes "0 < r" "0 < years"
  shows "1 < (1 + r / 12) ^ nat (years * 12)"
proof -
  have "1 < 1 + r / 12" using assms by simp
  moreover have "0 < nat (years * 12)" using assms by simp
  ultimately show ?thesis by (rule one_less_power)
qed

lemma sip_total:
  "\<exists>s. calculate_monthly_sip fv (get_return_rate rp) y = Inr s \<and> 0 \<le> s"
proof (cases "y \<le> 0 \<or> fv \<le> 0")
  case True
  then show ?thesis by (auto simp: calculate_monthly_sip_def)
next
  case False
  then have y: "0 < y" and fv: "0 < fv" by auto
  have r: "0 < get_return_rate rp" by (rule rate_pos)
  have d: "1 < (1 + get_return_rate rp / 12) ^ nat (y * 12)"
    using r y by (rule sip_power_gt1)
  from d have ne: "(1 + get_return_rate rp / 12) ^ nat (y * 12) \<noteq> 1" by linarith
  from d have pos: "0 < (1 + get_return_rate rp / 12) ^ nat (y * 12) - 1" by linarith
  have "calculate_monthly_sip fv (get_return_rate rp) y =
          Inr (fv * (get_return_rate rp / 12
                 / ((1 + get_return_rate rp / 12) ^ nat (y * 12) - 1)))"
    using y fv r ne by (simp add: calculate_monthly_sip_def Let_def)
  moreover have "0 \<le> fv * (get_return_rate rp / 12
                 / ((1 + get_return_rate rp / 12) ^ nat (y * 12) - 1))"
    using fv r pos by (intro mult_nonneg_nonneg divide_nonneg_nonneg) simp_all
  ultimately show ?thesis by simp
qed

lemma py_round_nonneg: "0 \<le> x \<Longrightarrow> 0 \<le> py_round x"
  by (auto simp: py_round_def Let_def)

lemma round_total:
  "\<exists>k. round_to_clean_figure a 500 = Inr k \<and> 0 \<le> k"
  by (auto simp: round_to_clean_figure_def Let_def intro!: py_round_nonneg)

lemma plan_result:
  obtains c s k where
    "calculate_corpus_for_retirement
       (calculate_future_value (current_annual_expenses i) (inflation_rate i)
          (retirement_age i - current_age i))
       (get_return_rate (risk_profile i)) (inflation_rate i)
       (life_expectancy i - retirement_age i) = Inr c"
    "calculate_monthly_sip
       (max 0 (c - calculate_future_value (current_investments i)
                     (get_return_rate (risk_profile i)) (retirement_age i - current_age i)))
       (get_return_rate (risk_profile i)) (retirement_age i - current_age i) = Inr s"
    "round_to_clean_figure s 500 = Inr k"
    "calculate_retirement_plan i =
       Inr \<lparr>res_current_age = current_age i,
            res_retirement_age = retirement_age i,
            res_life_expectancy = life_expectancy i,
            years_to_retirement = retirement_age i - current_age i,
            retirement_duration = life_expectancy i - retirement_age i,
            res_current_annual_expenses = current_annual_expenses i,
            future_annual_expenses =
              calculate_future_value (current_annual_expenses i) (inflation_rate i)
                (retirement_age i - current_age i),
            corpus_required = c,
            future_investment_value =
              calculate_future_value (current_investments i)
                (get_return_rate (risk_profile i)) (retirement_age i - current_age i),
            corpus_gap =
              max 0 (c - calculate_future_value (current_investments i)
                     (get_return_rate (risk_profile i)) (retirement_age i - current_age i)),
            monthly_savings_required = s,
            monthly_savings_rounded = k,
            expected_return_rate = get_return_rate (risk_profile i),
            res_inflation_rate = inflation_rate i,
            res_risk_profile = risk_profile i,
            res_current_annual_income = current_annual_income i,
            res_dependents = dependents i,
            income_expense_flag =
              (0 < current_annual_income i \<and>
               current_annual_income i < current_annual_expenses i),
            assumptions = make_assumptions i (get_return_rate (risk_profile i))\<rparr>"
proof -
  obtain c where c: "calculate_corpus_for_retirement
       (calculate_future_value (current_annual_expenses i) (inflation_rate i)
          (retirement_age i - current_age i))
       (get_return_rate (risk_profile i)) (inflation_rate i)
       (life_expectancy i - retirement_age i) = Inr c"
    using corpus_total by blast
  obtain s where s: "calculate_monthly_sip
       (max 0 (c - calculate_future_value (current_investments i)
                     (get_return_rate (risk_profile i)) (retirement_age i - current_age i)))
       (get_return_rate (risk_profile i)) (retirement_age i - current_age i) = Inr s"
    using sip_total by blast
  obtain k where k: "round_to_clean_figure s 500 = Inr k"
    using round_total by blast
  show thesis
    by (rule that [OF c s k]) (simp add: calculate_retirement_plan_def Let_def c s k)
qed

lemma inputs_with_age:
  "\<lparr>current_age = current_age b, retirement_age = a,
    life_expectancy = life_expectancy b,
    current_annual_expenses = current_annual_expenses b,
    current_investments = current_investments b,
    current_annual_income = current_annual_income b,
    risk_profile = risk_profile b, dependents = dependents b,
    inflation_rate = inflation_rate b\<rparr> = b\<lparr>retirement_age := a\<rparr>"
  by (cases b) simp

lemma py_round_cases:
  "py_round x = \<lfloor>x\<rfloor> \<and> x - of_int \<lfloor>x\<rfloor> \<le> 1 / 2
   \<or> py_round x = \<lfloor>x\<rfloor> + 1 \<and> 1 / 2 \<le> x - of_int \<lfloor>x\<rfloor>"
  by (auto simp: py_round_def Let_def)

lemma py_round_half: "\<bar>x - of_int (py_round x)\<bar> \<le> 1 / 2"
proof -
  have "of_int \<lfloor>x\<rfloor> \<le> x" "x < of_int \<lfloor>x\<rfloor> + 1" by linarith+
  then show ?thesis using py_round_cases [of x] by auto
qed

lemma py_round_nearest: "\<bar>x - of_int (py_round x)\<bar> \<le> \<bar>x - of_int j\<bar>"
proof (cases "j = py_round x")
  case True
  then show ?thesis by simp
next
  case False
  then have "1 \<le> \<bar>j - py_round x\<bar>" by linarith
  then have "(1::real) \<le> \<bar>of_int j - of_int (py_round x)\<bar>"
    by (metis of_int_1 of_int_abs of_int_diff of_int_le_iff)
  then show ?thesis using py_round_half [of x] by linarith
qed

lemma py_round_le: "x \<le> of_int n \<Longrightarrow> py_round x \<le> n"
proof -
  assume a: "x \<le> of_int n"
  then have f: "\<lfloor>x\<rfloor> \<le> n" by (simp add: floor_le_iff)
  show ?thesis
  proof (cases "\<lfloor>x\<rfloor> = n")
    case True
    then have "x - of_int \<lfloor>x\<rfloor> \<le> 0" using a by simp
    then show ?thesis using True by (simp add: py_round_def Let_def)
  next
    case False
    then have "\<lfloor>x\<rfloor> + 1 \<le> n" using f by linarith
    then show ?thesis using py_round_cases [of x] by linarith
  qed
qed

lemma py_round_ge: "of_int n \<le> x \<Longrightarrow> n \<le> py_round x"
proof -
  assume "of_int n \<le> x"
  then have "n \<le> \<lfloor>x\<rfloor>" by (simp add: le_floor_iff)
  then show ?thesis using py_round_cases [of x] by linarith
qed

lemma round_nearest_multiple:
  assumes "0 < t"
  shows "\<bar>a - of_int (py_round (a / of_int t) * t)\<bar> \<le> \<bar>a - of_int (j * t)\<bar>"
proof -
  have t: "(0::real) < of_int t" using assms by simp
  have "\<bar>a / of_int t - of_int (py_round (a / of_int t))\<bar> * of_int t
          \<le> \<bar>a / of_int t - of_int j\<bar> * of_int t"
    using py_round_nearest [of "a / of_int t" j] t by (simp only: mult_le_cancel_right) simp
  moreover have "\<bar>a / of_int t - of_int k\<bar> * of_int t = \<bar>a - of_int (k * t)\<bar>" for k
  proof -
    have "\<bar>a / of_int t - of_int k\<bar> * of_int t = \<bar>(a / of_int t - of_int k) * of_int t\<bar>"
      using t by (simp add: abs_mult)
    also have "(a / of_int t - of_int k) * of_int t = a - of_int (k * t)"
      using t by (simp add: field_simps)
    finally show ?thesis .
  qed
  ultimately show ?thesis by simp
qed

lemma round_default_divisible:
  assumes "round_to_clean_figure a 500 = Inr k"
  shows "500 dvd k" and "50000 < k \<Longrightarrow> 1000 dvd k"
proof -
  show "500 dvd k" using assms
    by (auto simp: round_to_clean_figure_def Let_def split: if_splits)
  assume big: "50000 < k"
  show "1000 dvd k"
  proof (cases "50000 < a")
    case True
    then show ?thesis using assms by (auto simp: round_to_clean_figure_def Let_def)
  next
    case False
    then have "a / 500 \<le> of_int 100" by simp
    then have "py_round (a / 500) \<le> 100" by (rule py_round_le)
    then have "k \<le> 50000" using assms False
      by (auto simp: round_to_clean_figure_def Let_def split: if_splits)
    then show ?thesis using big by simp
  qed
qed

lemma round_small_zero:
  assumes "0 < a" "a < 250"
  shows "round_to_clean_figure a 500 = Inr 0"
proof -
  have "\<lfloor>a / 500\<rfloor> = 0" using assms by (simp add: floor_eq_iff)
  moreover have "a / 500 < 1 / 2" using assms by simp
  ultimately have "py_round (a / 500) = 0" by (simp add: py_round_def Let_def)
  then show ?thesis using assms by (simp add: round_to_clean_figure_def Let_def)
qed

lemma plan_fields:
  "\<exists>res. calculate_retirement_plan i = Inr res
     \<and> years_to_retirement res = retirement_age i - current_age i
     \<and> retirement_duration res = life_expectancy i - retirement_age i
     \<and> expected_return_rate res = get_return_rate (risk_profile i)
     \<and> future_annual_expenses res =
          calculate_future_value (current_annual_expenses i) (inflation_rate i)
            (years_to_retirement res)
     \<and> calculate_corpus_for_retirement (future_annual_expenses res) (expected_return_rate res)
          (inflation_rate i) (retirement_duration res) = Inr (corpus_required res)
     \<and> future_investment_value res =
          calculate_future_value (current_investments i) (expected_return_rate res)
            (years_to_retirement res)
     \<and> corpus_gap res = max 0 (corpus_required res - future_investment_value res)
     \<and> calculate_monthly_sip (corpus_gap res) (expected_return_rate res)
          (years_to_retirement res) = Inr (monthly_savings_required res)
     \<and> round_to_clean_figure (monthly_savings_required res) 500
          = Inr (monthly_savings_rounded res)
     \<and> income_expense_flag res =
          (0 < current_annual_income i \<and> current_annual_income i < current_annual_expenses i)"
  by (rule plan_result [of i]) simp

lemma round_nonneg: "round_to_clean_figure a 500 = Inr k \<Longrightarrow> 0 \<le> k"
  using round_total [of a] by auto

lemma sip_value:
  "calculate_monthly_sip fv (get_return_rate rp) y =
     Inr (if y \<le> 0 \<or> fv \<le> 0 then 0
          else fv * (get_return_rate rp / 12
                 / ((1 + get_return_rate rp / 12) ^ nat (y * 12) - 1)))"
proof (cases "y \<le> 0 \<or> fv \<le> 0")
  case True
  then show ?thesis by (auto simp: calculate_monthly_sip_def)
next
  case False
  then have y: "0 < y" and fv: "0 < fv" by auto
  have r: "0 < get_return_rate rp" by (rule rate_pos)
  have "1 < (1 + get_return_rate rp / 12) ^ nat (y * 12)"
    using r y by (rule sip_power_gt1)
  then have ne: "(1 + get_return_rate rp / 12) ^ nat (y * 12) \<noteq> 1" by linarith
  show ?thesis using y fv r ne by (simp add: calculate_monthly_sip_def Let_def)
qed

lemma moderate_rate: "get_return_rate ''moderate'' = 0.12"
  by (simp add: get_return_rate_def rates_def lower_def lower_char_def)

text \<open>One year of saving and one year of retirement, moderate profile, 6% inflation.\<close>

lemma one_year_plan:
  assumes "0 < e"
  shows "\<exists>res. calculate_retirement_plan
       \<lparr>current_age = 0, retirement_age = 1, life_expectancy = 2,
        current_annual_expenses = e, current_investments = 0,
        current_annual_income = 0, risk_profile = ''moderate'',
        dependents = ''self_spouse'', inflation_rate = 0.06\<rparr> = Inr res
     \<and> monthly_savings_required res = e * (53 / 56) * (0.01 / ((101 / 100) ^ 12 - 1))
     \<and> round_to_clean_figure (monthly_savings_required res) 500
          = Inr (monthly_savings_rounded res)"
proof -
  let ?inp = "\<lparr>current_age = 0, retirement_age = 1, life_expectancy = 2,
        current_annual_expenses = e, current_investments = 0,
        current_annual_income = 0, risk_profile = ''moderate'',
        dependents = ''self_spouse'', inflation_rate = 0.06\<rparr>"
  obtain res where p: "calculate_retirement_plan ?inp = Inr res"
    and y: "years_to_retirement res = 1" and d: "retirement_duration res = 1"
    and r: "expected_return_rate res = get_return_rate ''moderate''"
    and x: "future_annual_expenses res =
              calculate_future_value e 0.06 (years_to_retirement res)"
    and c: "calculate_corpus_for_retirement (future_annual_expenses res)
              (expected_return_rate res) 0.06 (retirement_duration res)
            = Inr (corpus_required res)"
    and f: "future_investment_value res =
             calculate_future_value 0 (expected_return_rate res)
               (years_to_retirement res)"
    and g: "corpus_gap res = max 0 (corpus_required res - future_investment_value res)"
    and s: "calculate_monthly_sip (corpus_gap res) (expected_return_rate res)
             (years_to_retirement res) = Inr (monthly_savings_required res)"
    and k: "round_to_clean_figure (monthly_savings_required res) 500
          = Inr (monthly_savings_rounded res)"
    using plan_fields [of ?inp] by auto
  have r': "expected_return_rate res = 0.12" using r moderate_rate by simp
  have "future_annual_expenses res = e * (53 / 50)"
    using x y by (simp add: calculate_future_value_def)
  then have "corpus_required res = e * (53 / 56)"
    using c r' d assms by (simp add: calculate_corpus_for_retirement_def max_def)
  moreover have "future_investment_value res = 0"
    using f by (simp add: calculate_future_value_def)
  ultimately have g': "corpus_gap res = e * (53 / 56)" using g assms by simp
  have "monthly_savings_required res = e * (53 / 56) * (0.01 / ((101 / 100) ^ 12 - 1))"
    using s g' r' y assms by (simp add: calculate_monthly_sip_def Let_def power_divide)
  with p k show ?thesis by blast
qed

lemma one_year_plan_small:
  "calculate_retirement_plan
       \<lparr>current_age = 0, retirement_age = 1, life_expectancy = 2,
        current_annual_expenses = 1, current_investments = 0,
        current_annual_income = 0, risk_profile = ''moderate'',
        dependents = ''self_spouse'', inflation_rate = 0.06\<rparr> = Inr res
   \<Longrightarrow> monthly_savings_rounded res = 0"
proof -
  assume a: "calculate_retirement_plan
       \<lparr>current_age = 0, retirement_age = 1, life_expectancy = 2,
        current_annual_expenses = 1, current_investments = 0,
        current_annual_income = 0, risk_profile = ''moderate'',
        dependents = ''self_spouse'', inflation_rate = 0.06\<rparr> = Inr res"
  have s: "monthly_savings_required res = 1 * (53 / 56) * (0.01 / ((101 / 100) ^ 12 - 1))"
    and k: "round_to_clean_figure (monthly_savings_required res) 500
          = Inr (monthly_savings_rounded res)"
    using one_year_plan [of 1] a by auto
  have "0 < monthly_savings_required res" "monthly_savings_required res < 250"
    unfolding s by (simp_all add: power_divide)
  then show ?thesis using k round_small_zero [of "monthly_savings_required res"] by simp
qed

lemma one_year_plan_large:
  "calculate_retirement_plan
       \<lparr>current_age = 0, retirement_age = 1, life_expectancy = 2,
        current_annual_expenses = 112000000, current_investments = 0,
        current_annual_income = 0, risk_profile = ''moderate'',
        dependents = ''self_spouse'', inflation_rate = 0.06\<rparr> = Inr res
   \<Longrightarrow> 50000 < monthly_savings_rounded res"
proof -
  assume a: "calculate_retirement_plan
       \<lparr>current_age = 0, retirement_age = 1, life_expectancy = 2,
        current_annual_expenses = 112000000, current_investments = 0,
        current_annual_income = 0, risk_profile = ''moderate'',
        dependents = ''self_spouse'', inflation_rate = 0.06\<rparr> = Inr res"
  have s: "monthly_savings_required res
             = 112000000 * (53 / 56) * (0.01 / ((101 / 100) ^ 12 - 1))"
    and k: "round_to_clean_figure (monthly_savings_required res) 500
          = Inr (monthly_savings_rounded res)"
    using one_year_plan [of 112000000] a by auto
  have big: "51000 \<le> monthly_savings_required res"
    unfolding s by (simp add: power_divide)
  then have "of_int 51 \<le> monthly_savings_required res / 1000" by simp
  then have "51 \<le> py_round (monthly_savings_required res / 1000)" by (rule py_round_ge)
  moreover have "monthly_savings_rounded res
                   = py_round (monthly_savings_required res / 1000) * 1000"
    using k big by (simp add: round_to_clean_figure_def Let_def)
  ultimately show ?thesis by simp
qed

subsection \<open>One more year of saving\<close>

text \<open>
  Facts for the comparison of two retirement ages. Moving the retirement age by one year
  multiplies the annuity factor by at most \<open>1 + r\<close> (the difference is
  \<open>(1 + g) ^ y\<close>), the investments grow by exactly \<open>1 + r\<close>, and twelve more
  months of compounding at \<open>r / 12\<close> outgrow \<open>1 + r\<close>.
\<close>

lemma py_round_mono: "x \<le> y \<Longrightarrow> py_round x \<le> py_round y"
proof -
  assume xy: "x \<le> y"
  then have f: "\<lfloor>x\<rfloor> \<le> \<lfloor>y\<rfloor>" by (rule floor_mono)
  show ?thesis
  proof (cases "\<lfloor>x\<rfloor> = \<lfloor>y\<rfloor>")
    case True
    then have "x - of_int \<lfloor>x\<rfloor> \<le> y - of_int \<lfloor>y\<rfloor>" using xy by simp
    then show ?thesis using True by (auto simp: py_round_def Let_def)
  next
    case False
    then have "\<lfloor>x\<rfloor> + 1 \<le> \<lfloor>y\<rfloor>" using f by linarith
    then show ?thesis using py_round_cases [of x] py_round_cases [of y] by linarith
  qed
qed

lemma round_default_mono:
  assumes "a \<le> b" "round_to_clean_figure a 500 = Inr k" "round_to_clean_figure b 500 = Inr k'"
  shows "k \<le> k'"
proof (cases "a \<le> 0")
  case True
  then have "k = 0" using assms(2) by (simp add: round_to_clean_figure_def)
  then show ?thesis using round_nonneg [OF assms(3)] by simp
next
  case a: False
  show ?thesis
  proof (cases "50000 < a")
    case True
    have "py_round (a / 1000) \<le> py_round (b / 1000)"
      using assms(1) by (intro py_round_mono) simp
    then show ?thesis using True assms a
      by (simp add: round_to_clean_figure_def Let_def)
  next
    case small: False
    show ?thesis
    proof (cases "50000 < b")
      case True
      have "a / 500 \<le> of_int 100" using small by simp
      then have "py_round (a / 500) \<le> 100" by (rule py_round_le)
      moreover have "of_int 50 \<le> b / 1000" using True by simp
      then have "50 \<le> py_round (b / 1000)" by (rule py_round_ge)
      ultimately show ?thesis using True small assms a
        by (simp add: round_to_clean_figure_def Let_def)
    next
      case False
      have "py_round (a / 500) \<le> py_round (b / 500)"
        using assms(1) by (intro py_round_mono) simp
      then show ?thesis using False small assms a
        by (simp add: round_to_clean_figure_def Let_def)
    qed
  qed
qed

lemma annuity_factor_nonneg:
  fixes g r :: real
  assumes "0 \<le> 1 + g" "0 < 1 + r" "r \<noteq> g"
  shows "0 \<le> (1 - ((1 + g) / (1 + r)) ^ n) / (r - g)"
proof (cases "g < r")
  case True
  have "0 \<le> (1 + g) / (1 + r)" using assms by simp
  moreover have "(1 + g) / (1 + r) \<le> 1" using assms True by simp
  ultimately have "((1 + g) / (1 + r)) ^ n \<le> 1" by (rule power_le_one)
  then show ?thesis using True by simp
next
  case False
  then have lt: "r < g" using assms(3) by simp
  then have "1 \<le> (1 + g) / (1 + r)" using assms by simp
  then have "1 \<le> ((1 + g) / (1 + r)) ^ n" by (rule one_le_power)
  then show ?thesis using lt by (simp add: divide_nonpos_neg)
qed

lemma annuity_aux:
  fixes R q G Q :: real
  assumes "R * q = G"
  shows "R * (1 - q * Q) - G * (1 - Q) = R - G"
proof -
  have "R * (1 - q * Q) = R - (R * q) * Q" by (simp add: algebra_simps)
  also have "\<dots> = R - G * Q" by (simp only: assms)
  finally show ?thesis by (simp add: algebra_simps)
qed

lemma annuity_factor_step:
  fixes g r :: real
  assumes "0 < 1 + r" "r \<noteq> g"
  shows "(1 + r) * ((1 + g) ^ y * ((1 - ((1 + g) / (1 + r)) ^ Suc n) / (r - g)))
           - (1 + g) ^ Suc y * ((1 - ((1 + g) / (1 + r)) ^ n) / (r - g))
         = (1 + g) ^ y"
proof -
  define Q where "Q = ((1 + g) / (1 + r)) ^ n"
  define q where "q = (1 + g) / (1 + r)"
  define D where "D = r - g"
  have D: "D \<noteq> 0" using assms(2) by (simp add: D_def)
  have q: "(1 + r) * q = 1 + g" using assms(1) by (simp add: q_def)
  have e: "(1 + r) * (1 - q * Q) - (1 + g) * (1 - Q) = D"
    using annuity_aux [OF q, of Q] by (simp add: D_def)
  have "R * (A * (X / D)) - (G * A) * (Y / D) = A * ((R * X - G * Y) / D)" for R A X G Y :: real
    using D by (simp add: field_simps)
  then have "(1 + r) * ((1 + g) ^ y * ((1 - q * Q) / D)) - ((1 + g) * (1 + g) ^ y) * ((1 - Q) / D)
        = (1 + g) ^ y * (((1 + r) * (1 - q * Q) - (1 + g) * (1 - Q)) / D)" .
  also have "\<dots> = (1 + g) ^ y" unfolding e using D by simp
  finally show ?thesis by (simp add: Q_def q_def D_def)
qed

lemma corpus_general:
  assumes "0 < 1 + r" "\<not> \<bar>r - g\<bar> < 0.0001" "0 < n"
  shows "calculate_corpus_for_retirement pmt r g n =
           Inr (max 0 (pmt * (1 - ((1 + g) / (1 + r)) ^ nat n) / (r - g)))"
proof -
  have "r - g \<noteq> 0" using assms(2) by auto
  then show ?thesis using assms by (simp add: calculate_corpus_for_retirement_def Let_def)
qed

lemma corpus_step:
  assumes g: "0 \<le> 1 + g" and r: "0 < r" and ne: "\<not> \<bar>r - g\<bar> < 0.0001"
    and y: "0 < y" and n: "0 < n"
  shows "\<exists>c c'. calculate_corpus_for_retirement (calculate_future_value E g y) r g (n + 1) = Inr c
           \<and> calculate_corpus_for_retirement (calculate_future_value E g (y + 1)) r g n = Inr c'
           \<and> 0 \<le> c \<and> c' \<le> (1 + r) * c"
proof -
  have r1: "0 < 1 + r" using r by simp
  have rg: "r \<noteq> g" using ne by auto
  define W where "W = (1 + g) ^ nat y * ((1 - ((1 + g) / (1 + r)) ^ Suc (nat n)) / (r - g))"
  define W' where "W' = (1 + g) ^ Suc (nat y) * ((1 - ((1 + g) / (1 + r)) ^ nat n) / (r - g))"
  have ny: "nat (y + 1) = Suc (nat y)" using y by simp
  have nn: "nat (n + 1) = Suc (nat n)" using n by simp
  have c: "calculate_corpus_for_retirement (calculate_future_value E g y) r g (n + 1)
             = Inr (max 0 (E * W))"
    using y n by (simp add: corpus_general [OF r1 ne] calculate_future_value_def nn W_def)
  have c': "calculate_corpus_for_retirement (calculate_future_value E g (y + 1)) r g n
             = Inr (max 0 (E * W'))"
    using y n by (simp add: corpus_general [OF r1 ne] calculate_future_value_def ny W'_def)
  have W'0: "0 \<le> W'" unfolding W'_def
    using g annuity_factor_nonneg [OF g r1 rg] by (intro mult_nonneg_nonneg zero_le_power)
  have "(1 + r) * W - W' = (1 + g) ^ nat y"
    unfolding W_def W'_def by (rule annuity_factor_step [OF r1 rg])
  moreover have "0 \<le> (1 + g) ^ nat y" using g by simp
  ultimately have le: "W' \<le> (1 + r) * W" by linarith
  have "max 0 (E * W') \<le> (1 + r) * max 0 (E * W)"
  proof (cases "0 \<le> E")
    case True
    have "E * W' \<le> E * ((1 + r) * W)" using le True by (rule mult_left_mono)
    also have "\<dots> = (1 + r) * (E * W)" by simp
    also have "\<dots> \<le> (1 + r) * max 0 (E * W)" using r1 by (intro mult_left_mono) simp_all
    finally have "E * W' \<le> (1 + r) * max 0 (E * W)" .
    moreover have "0 \<le> (1 + r) * max 0 (E * W)" using r1 by simp
    ultimately show ?thesis by simp
  next
    case False
    then have "E * W' \<le> 0" using W'0 by (simp add: mult_nonpos_nonneg)
    moreover have "0 \<le> (1 + r) * max 0 (E * W)" using r1 by simp
    ultimately show ?thesis by simp
  qed
  then show ?thesis using c c' by auto
qed

lemma sip_step:
  fixes r G G' :: real
  assumes r: "0 < r" and y: "0 < y" and G: "0 \<le> G" and le: "G' \<le> (1 + r) * G"
  shows "(if y + 1 \<le> 0 \<or> G' \<le> 0 then 0
          else G' * (r / 12 / ((1 + r / 12) ^ nat ((y + 1) * 12) - 1)))
       \<le> (if y \<le> 0 \<or> G \<le> 0 then 0
          else G * (r / 12 / ((1 + r / 12) ^ nat (y * 12) - 1)))"
proof -
  define m where "m = r / 12"
  define P where "P = (1 + m) ^ nat (y * 12)"
  define B where "B = (1 + m) ^ 12"
  have m: "0 < m" using r by (simp add: m_def)
  have P: "1 < P" unfolding P_def m_def using r y by (rule sip_power_gt1)
  have "1 + of_nat 12 * m \<le> (1 + m) ^ 12" using m by (intro Bernoulli_inequality) simp
  then have B: "1 + r \<le> B" by (simp add: B_def m_def)
  have "nat ((y + 1) * 12) = nat (y * 12) + 12" using y by (simp add: algebra_simps nat_add_distrib)
  then have PB: "(1 + m) ^ nat ((y + 1) * 12) = P * B" by (simp add: P_def B_def power_add)
  have "(1 + r) * P \<le> B * P" using B P by (intro mult_right_mono) simp_all
  then have key: "(1 + r) * (P - 1) \<le> P * B - 1" using r by (simp add: algebra_simps)
  have PB1: "0 < P * B - 1" using key P r
    by (smt (verit) mult_pos_pos)
  have rhs0: "0 \<le> G * (m / (P - 1))" using G m P by simp
  show ?thesis
  proof (cases "G' \<le> 0")
    case True
    then show ?thesis using rhs0 y by (simp add: m_def P_def)
  next
    case False
    then have G'pos: "0 < G'" by simp
    have Gpos: "0 < G"
    proof (rule ccontr)
      assume "\<not> 0 < G"
      then have "G = 0" using G by simp
      then show False using le G'pos by simp
    qed
    have "G' * (m / (P * B - 1)) \<le> ((1 + r) * G) * (m / (P * B - 1))"
      using le m PB1 by (intro mult_right_mono) simp_all
    also have "\<dots> = G * m * ((1 + r) / (P * B - 1))" by simp
    also have "\<dots> \<le> G * m * (1 / (P - 1))"
    proof (intro mult_left_mono)
      show "(1 + r) / (P * B - 1) \<le> 1 / (P - 1)"
        using key PB1 P by (simp add: field_simps)
      show "0 \<le> G * m" using G m by simp
    qed
    also have "\<dots> = G * (m / (P - 1))" by simp
    finally have fin: "G' * (m / (P * B - 1)) \<le> G * (m / (P - 1))" .
    have c1: "\<not> (y + 1 \<le> 0 \<or> G' \<le> 0)" using y False by simp
    have c2: "\<not> (y \<le> 0 \<or> G \<le> 0)" using y Gpos by simp
    show ?thesis
      unfolding if_not_P [OF c1] if_not_P [OF c2] m_def [symmetric] PB P_def [symmetric]
      by (rule fin)
  qed
qed

lemma plan_fields_age:
  "\<exists>res. calculate_retirement_plan (i\<lparr>retirement_age := a\<rparr>) = Inr res
     \<and> future_annual_expenses res =
          calculate_future_value (current_annual_expenses i) (inflation_rate i)
            (a - current_age i)
     \<and> calculate_corpus_for_retirement (future_annual_expenses res)
          (get_return_rate (risk_profile i)) (inflation_rate i) (life_expectancy i - a)
         = Inr (corpus_required res)
     \<and> future_investment_value res =
          calculate_future_value (current_investments i) (get_return_rate (risk_profile i))
            (a - current_age i)
     \<and> corpus_gap res = max 0 (corpus_required res - future_investment_value res)
     \<and> calculate_monthly_sip (corpus_gap res) (get_return_rate (risk_profile i))
          (a - current_age i) = Inr (monthly_savings_required res)
     \<and> round_to_clean_figure (monthly_savings_required res) 500
          = Inr (monthly_savings_rounded res)"
  by (rule plan_result [of "i\<lparr>retirement_age := a\<rparr>"]) simp

lemma plan_step:
  assumes a: "current_age i < a" and a': "a + 1 < life_expectancy i"
    and g: "0 \<le> 1 + inflation_rate i"
    and ne: "\<not> \<bar>get_return_rate (risk_profile i) - inflation_rate i\<bar> < 0.0001"
  shows "\<exists>res res'. calculate_retirement_plan (i\<lparr>retirement_age := a\<rparr>) = Inr res
     \<and> calculate_retirement_plan (i\<lparr>retirement_age := a + 1\<rparr>) = Inr res'
     \<and> monthly_savings_required res' \<le> monthly_savings_required res
     \<and> monthly_savings_rounded res' \<le> monthly_savings_rounded res"
proof -
  define r where "r = get_return_rate (risk_profile i)"
  define y where "y = a - current_age i"
  define n where "n = life_expectancy i - (a + 1)"
  have r: "0 < r" unfolding r_def by (rule rate_pos)
  have y: "0 < y" using a by (simp add: y_def)
  have n: "0 < n" using a' by (simp add: n_def)
  have ya: "a - current_age i = y" by (simp add: y_def)
  have ya': "a + 1 - current_age i = y + 1" by (simp add: y_def)
  have na: "life_expectancy i - a = n + 1" by (simp add: n_def)
  have na': "life_expectancy i - (a + 1) = n" by (simp add: n_def)
  obtain res where p: "calculate_retirement_plan (i\<lparr>retirement_age := a\<rparr>) = Inr res"
    and rx: "future_annual_expenses res =
              calculate_future_value (current_annual_expenses i) (inflation_rate i) y"
    and rc: "calculate_corpus_for_retirement (future_annual_expenses res) r
              (inflation_rate i) (n + 1) = Inr (corpus_required res)"
    and rf: "future_investment_value res = calculate_future_value (current_investments i) r y"
    and rg: "corpus_gap res = max 0 (corpus_required res - future_investment_value res)"
    and rs: "calculate_monthly_sip (corpus_gap res) r y = Inr (monthly_savings_required res)"
    and rk: "round_to_clean_figure (monthly_savings_required res) 500
              = Inr (monthly_savings_rounded res)"
    using plan_fields_age [where i = i and a = a] unfolding ya na r_def [symmetric] by blast
  obtain res' where p': "calculate_retirement_plan (i\<lparr>retirement_age := a + 1\<rparr>) = Inr res'"
    and rx': "future_annual_expenses res' =
              calculate_future_value (current_annual_expenses i) (inflation_rate i) (y + 1)"
    and rc': "calculate_corpus_for_retirement (future_annual_expenses res') r
              (inflation_rate i) n = Inr (corpus_required res')"
    and rf': "future_investment_value res'
                = calculate_future_value (current_investments i) r (y + 1)"
    and rg': "corpus_gap res' = max 0 (corpus_required res' - future_investment_value res')"
    and rs': "calculate_monthly_sip (corpus_gap res') r (y + 1)
                = Inr (monthly_savings_required res')"
    and rk': "round_to_clean_figure (monthly_savings_required res') 500
              = Inr (monthly_savings_rounded res')"
    using plan_fields_age [where i = i and a = "a + 1"] unfolding ya' na' r_def [symmetric] by blast
  have ne': "\<not> \<bar>r - inflation_rate i\<bar> < 0.0001" using ne by (simp add: r_def)
  have cc: "0 \<le> corpus_required res"
    "corpus_required res' \<le> (1 + r) * corpus_required res"
    using corpus_step [OF g r ne' y n, of "current_annual_expenses i"] rc rc'
    unfolding rx rx' by auto
  have ny: "nat (y + 1) = Suc (nat y)" using y by simp
  have ff: "future_investment_value res' = (1 + r) * future_investment_value res"
    unfolding rf rf' using y by (simp add: calculate_future_value_def ny)
  have "corpus_required res' - future_investment_value res'
          \<le> (1 + r) * (corpus_required res - future_investment_value res)"
    using cc(2) by (simp add: ff algebra_simps)
  also have "\<dots> \<le> (1 + r) * corpus_gap res"
    unfolding rg using r by (intro mult_left_mono) simp_all
  finally have "corpus_required res' - future_investment_value res' \<le> (1 + r) * corpus_gap res" .
  moreover have g0: "0 \<le> corpus_gap res" unfolding rg by simp
  moreover have "0 \<le> (1 + r) * corpus_gap res" using g0 r by simp
  ultimately have gg: "corpus_gap res' \<le> (1 + r) * corpus_gap res" unfolding rg' by simp
  have s: "monthly_savings_required res =
     (if y \<le> 0 \<or> corpus_gap res \<le> 0 then 0
      else corpus_gap res * (r / 12 / ((1 + r / 12) ^ nat (y * 12) - 1)))"
    using rs unfolding r_def sip_value by simp
  have s': "monthly_savings_required res' =
     (if y + 1 \<le> 0 \<or> corpus_gap res' \<le> 0 then 0
      else corpus_gap res' * (r / 12 / ((1 + r / 12) ^ nat ((y + 1) * 12) - 1)))"
    using rs' unfolding r_def sip_value by simp
  have ss: "monthly_savings_required res' \<le> monthly_savings_required res"
    unfolding s s' using r y g0 gg by (rule sip_step)
  have "monthly_savings_rounded res' \<le> monthly_savings_rounded res"
    using ss rk' rk by (rule round_default_mono)
  with p p' ss show ?thesis by blast
qed

subsection \<open>The what-if variant\<close>

text \<open>
  C6. For every base record and every replacement retirement age \<open>a\<close>, the what-if
  scenario is the plan of the record that is the base in every field except
  \<open>retirement_age = a\<close>; with the base's own retirement age it is the plan of the
  base itself.
\<close>

theorem whatif_is_plan_with_age:
  "calculate_whatif_scenario base a = calculate_retirement_plan (base\<lparr>retirement_age := a\<rparr>)
   \<and> calculate_whatif_scenario base (retirement_age base) = calculate_retirement_plan base"
  by (simp add: calculate_whatif_scenario_def Let_def inputs_with_age)

subsection \<open>Corpus sizing\<close>



subsection \<open>Contribution sizing\<close>



subsection \<open>Degenerate horizons\<close>




subsection \<open>The income flag\<close>

text \<open>
  C7. For every input record the plan's \<open>income_expense_flag\<close> is true iff
  \<open>current_annual_income > 0\<close> and
  \<open>current_annual_expenses > current_annual_income\<close>; and the plan of a record that
  differs only in \<open>current_annual_income\<close> agrees with it on every field except
  \<open>income_expense_flag\<close> and the echoed \<open>current_annual_income\<close>.
\<close>

theorem income_is_advisory_only:
  "\<exists>res res'. calculate_retirement_plan i = Inr res
     \<and> calculate_retirement_plan (i\<lparr>current_annual_income := x\<rparr>) = Inr res'
     \<and> income_expense_flag res =
          (0 < current_annual_income i \<and> current_annual_expenses i > current_annual_income i)
     \<and> res_current_annual_income res = current_annual_income i
     \<and> res'\<lparr>res_current_annual_income := res_current_annual_income res,
             income_expense_flag := income_expense_flag res\<rparr> = res"
proof -
  have "calculate_retirement_plan (i\<lparr>current_annual_income := x\<rparr>) =
      map_sum id (\<lambda>res. res\<lparr>res_current_annual_income := x,
        income_expense_flag := (0 < x \<and> x < current_annual_expenses i)\<rparr>) (calculate_retirement_plan i)"
    by (simp add: calculate_retirement_plan_def Let_def make_assumptions_def split: sum.splits)
  then show ?thesis
    by (rule_tac plan_result [of i]) simp
qed

subsection \<open>Non-negative gap and contribution\<close>

text \<open>
  C8. For every input record the plan satisfies
  \<open>corpus_gap = max(0, corpus_required - future_investment_value)\<close>, hence
  \<open>corpus_gap \<ge> 0\<close>, and \<open>monthly_savings_rounded \<ge> 0\<close>.
\<close>

theorem gap_and_rounded_nonneg:
  "\<exists>res. calculate_retirement_plan i = Inr res
     \<and> corpus_gap res = max 0 (corpus_required res - future_investment_value res)
     \<and> 0 \<le> corpus_gap res \<and> 0 \<le> monthly_savings_rounded res"
  using plan_fields [of i] round_nonneg by fastforce

subsection \<open>Small contributions\<close>

text \<open>
  C9. Every amount strictly between 0 and 250 is rounded to 0; and there is an input
  record (annual expenses of 1, one year to retirement, one year of retirement) whose
  plan has a strictly positive \<open>monthly_savings_required\<close> and
  \<open>monthly_savings_rounded = 0\<close>.
\<close>

theorem small_contribution_rounds_to_zero:
  "(0 < amount \<and> amount < 250 \<longrightarrow> round_to_clean_figure amount 500 = Inr 0)
   \<and> (\<exists>res. calculate_retirement_plan
          \<lparr>current_age = 0, retirement_age = 1, life_expectancy = 2,
           current_annual_expenses = 1, current_investments = 0,
           current_annual_income = 0, risk_profile = ''moderate'',
           dependents = ''self_spouse'', inflation_rate = 0.06\<rparr> = Inr res
         \<and> 0 < monthly_savings_required res \<and> monthly_savings_rounded res = 0)"
proof (intro conjI impI)
  assume "0 < amount \<and> amount < 250"
  then show "round_to_clean_figure amount 500 = Inr 0" by (simp add: round_small_zero)
next
  obtain res where p: "calculate_retirement_plan
          \<lparr>current_age = 0, retirement_age = 1, life_expectancy = 2,
           current_annual_expenses = 1, current_investments = 0,
           current_annual_income = 0, risk_profile = ''moderate'',
           dependents = ''self_spouse'', inflation_rate = 0.06\<rparr> = Inr res"
    and s: "monthly_savings_required res = 1 * (53 / 56) * (0.01 / ((101 / 100) ^ 12 - 1))"
    and k: "round_to_clean_figure (monthly_savings_required res) 500
          = Inr (monthly_savings_rounded res)"
    using one_year_plan [of 1] by auto
  have "0 < monthly_savings_required res" "monthly_savings_required res < 250"
    unfolding s by (simp_all add: power_divide)
  then show "\<exists>res. calculate_retirement_plan
          \<lparr>current_age = 0, retirement_age = 1, life_expectancy = 2,
           current_annual_expenses = 1, current_investments = 0,
           current_annual_income = 0, risk_profile = ''moderate'',
           dependents = ''self_spouse'', inflation_rate = 0.06\<rparr> = Inr res
         \<and> 0 < monthly_savings_required res \<and> monthly_savings_rounded res = 0"
    using p k round_small_zero [of "monthly_savings_required res"] by auto
qed

theorem small_contribution_rounds_to_zero_witness:
  "round_to_clean_figure 100 500 = Inr 0"
  using small_contribution_rounds_to_zero [of 100] by simp

subsection \<open>The rate passed to the contribution formula\<close>

text \<open>
  C10. \<open>get_return_rate\<close> returns only 0.08, 0.12 or 0.15, so the annual rate is
  strictly positive, the monthly rate is not 0 (the straight-line branch is not taken),
  and for a positive horizon the divisor \<open>(1 + i) ^ m - 1\<close> is not 0; the call of
  \<open>calculate_monthly_sip\<close> made by \<open>calculate_retirement_plan\<close> returns 0 or the
  value of the annuity formula.
\<close>

theorem sip_rate_never_zero:
  "(get_return_rate rp = 0.08 \<or> get_return_rate rp = 0.12 \<or> get_return_rate rp = 0.15)
   \<and> 0 < get_return_rate rp
   \<and> get_return_rate rp / 12 \<noteq> 0
   \<and> (0 < years \<longrightarrow> (1 + get_return_rate rp / 12) ^ nat (years * 12) - 1 \<noteq> 0)
   \<and> (\<exists>res. calculate_retirement_plan i = Inr res
         \<and> expected_return_rate res = get_return_rate (risk_profile i)
         \<and> calculate_monthly_sip (corpus_gap res) (expected_return_rate res)
              (years_to_retirement res) = Inr (monthly_savings_required res)
         \<and> monthly_savings_required res =
             (if years_to_retirement res \<le> 0 \<or> corpus_gap res \<le> 0 then 0
              else corpus_gap res * (expected_return_rate res / 12
                     / ((1 + expected_return_rate res / 12)
                          ^ nat (years_to_retirement res * 12) - 1))))"
proof (intro conjI impI)
  show "get_return_rate rp = 0.08 \<or> get_return_rate rp = 0.12 \<or> get_return_rate rp = 0.15"
    by (rule get_return_rate_cases)
  show "0 < get_return_rate rp" by (rule rate_pos)
  show "get_return_rate rp / 12 \<noteq> 0" using rate_pos [of rp] by simp
  show "(1 + get_return_rate rp / 12) ^ nat (years * 12) - 1 \<noteq> 0" if "0 < years"
    using sip_power_gt1 [OF rate_pos that, of rp] by linarith
  show "\<exists>res. calculate_retirement_plan i = Inr res
         \<and> expected_return_rate res = get_return_rate (risk_profile i)
         \<and> calculate_monthly_sip (corpus_gap res) (expected_return_rate res)
              (years_to_retirement res) = Inr (monthly_savings_required res)
         \<and> monthly_savings_required res =
             (if years_to_retirement res \<le> 0 \<or> corpus_gap res \<le> 0 then 0
              else corpus_gap res * (expected_return_rate res / 12
                     / ((1 + expected_return_rate res / 12)
                          ^ nat (years_to_retirement res * 12) - 1)))"
  proof -
    obtain res where p: "calculate_retirement_plan i = Inr res"
      and r: "expected_return_rate res = get_return_rate (risk_profile i)"
      and s: "calculate_monthly_sip (corpus_gap res) (expected_return_rate res)
             (years_to_retirement res) = Inr (monthly_savings_required res)"
      using plan_fields [of i] by blast
    from s have "monthly_savings_required res =
             (if years_to_retirement res \<le> 0 \<or> corpus_gap res \<le> 0 then 0
              else corpus_gap res * (expected_return_rate res / 12
                     / ((1 + expected_return_rate res / 12)
                          ^ nat (years_to_retirement res * 12) - 1)))"
      unfolding r sip_value by simp
    with p r s show ?thesis by blast
  qed
qed

theorem sip_rate_never_zero_witness:
  "get_return_rate ''moderate'' = 0.12
   \<and> (1 + get_return_rate ''moderate'' / 12) ^ nat (1 * 12) - 1 \<noteq> 0"
  using sip_rate_never_zero [where rp = "''moderate''" and years = 1]
  by (simp add: get_return_rate_def rates_def lower_def lower_char_def)

subsection \<open>Rounding policy\<close>

text \<open>
  C4. \<open>round_to_clean_figure\<close> (with its default unit of 500) maps every amount
  \<open>\<le> 0\<close> to 0, every amount with \<open>0 < amount \<le> 50000\<close> to a multiple of 500
  that is nearest to it, and every amount \<open>> 50000\<close> to a multiple of 1000 that is
  nearest to it; and for every input record \<open>monthly_savings_rounded\<close> is divisible
  by 500 whenever it is \<open>\<le> 50000\<close>, and by 1000 otherwise.
\<close>

theorem round_to_clean_figure_policy:
  "(amount \<le> 0 \<longrightarrow> round_to_clean_figure amount 500 = Inr 0)
   \<and> (0 < amount \<and> amount \<le> 50000 \<longrightarrow>
        (\<exists>k. round_to_clean_figure amount 500 = Inr (k * 500)
           \<and> (\<forall>j. \<bar>amount - of_int (k * 500)\<bar> \<le> \<bar>amount - of_int (j * 500)\<bar>)))
   \<and> (50000 < amount \<longrightarrow>
        (\<exists>k. round_to_clean_figure amount 500 = Inr (k * 1000)
           \<and> (\<forall>j. \<bar>amount - of_int (k * 1000)\<bar> \<le> \<bar>amount - of_int (j * 1000)\<bar>)))
   \<and> (\<exists>res. calculate_retirement_plan inputs = Inr res
          \<and> (monthly_savings_rounded res \<le> 50000 \<longrightarrow> 500 dvd monthly_savings_rounded res)
          \<and> (50000 < monthly_savings_rounded res \<longrightarrow> 1000 dvd monthly_savings_rounded res))"
proof (intro conjI impI)
  assume "amount \<le> 0"
  then show "round_to_clean_figure amount 500 = Inr 0"
    by (simp add: round_to_clean_figure_def)
next
  assume a: "0 < amount \<and> amount \<le> 50000"
  have "round_to_clean_figure amount 500 = Inr (py_round (amount / of_int 500) * 500)"
    using a by (simp add: round_to_clean_figure_def Let_def)
  moreover have "\<bar>amount - of_int (py_round (amount / of_int 500) * 500)\<bar>
                   \<le> \<bar>amount - of_int (j * 500)\<bar>" for j
    by (rule round_nearest_multiple) simp
  ultimately show "\<exists>k. round_to_clean_figure amount 500 = Inr (k * 500)
           \<and> (\<forall>j. \<bar>amount - of_int (k * 500)\<bar> \<le> \<bar>amount - of_int (j * 500)\<bar>)"
    by blast
next
  assume a: "50000 < amount"
  have "round_to_clean_figure amount 500 = Inr (py_round (amount / of_int 1000) * 1000)"
    using a by (simp add: round_to_clean_figure_def Let_def)
  moreover have "\<bar>amount - of_int (py_round (amount / of_int 1000) * 1000)\<bar>
                   \<le> \<bar>amount - of_int (j * 1000)\<bar>" for j
    by (rule round_nearest_multiple) simp
  ultimately show "\<exists>k. round_to_clean_figure amount 500 = Inr (k * 1000)
           \<and> (\<forall>j. \<bar>amount - of_int (k * 1000)\<bar> \<le> \<bar>amount - of_int (j * 1000)\<bar>)"
    by blast
next
  obtain res where p: "calculate_retirement_plan inputs = Inr res"
    and k: "round_to_clean_figure (monthly_savings_required res) 500
              = Inr (monthly_savings_rounded res)"
    using plan_fields [of inputs] by blast
  show "\<exists>res. calculate_retirement_plan inputs = Inr res
          \<and> (monthly_savings_rounded res \<le> 50000 \<longrightarrow> 500 dvd monthly_savings_rounded res)
          \<and> (50000 < monthly_savings_rounded res \<longrightarrow> 1000 dvd monthly_savings_rounded res)"
    using round_default_divisible [OF k] p by blast
qed

theorem round_to_clean_figure_policy_witness:
  "round_to_clean_figure 0 500 = Inr 0
   \<and> (\<exists>k. round_to_clean_figure 1300 500 = Inr (k * 500)
         \<and> (\<forall>j. \<bar>1300 - of_int (k * 500)\<bar> \<le> \<bar>(1300::real) - of_int (j * 500)\<bar>))
   \<and> (\<exists>k. round_to_clean_figure 51500 500 = Inr (k * 1000)
         \<and> (\<forall>j. \<bar>51500 - of_int (k * 1000)\<bar> \<le> \<bar>(51500::real) - of_int (j * 1000)\<bar>))
   \<and> (\<exists>res. calculate_retirement_plan
          \<lparr>current_age = 0, retirement_age = 1, life_expectancy = 2,
           current_annual_expenses = 1, current_investments = 0,
           current_annual_income = 0, risk_profile = ''moderate'',
           dependents = ''self_spouse'', inflation_rate = 0.06\<rparr> = Inr res
         \<and> monthly_savings_rounded res \<le> 50000 \<and> 500 dvd monthly_savings_rounded res)
   \<and> (\<exists>res. calculate_retirement_plan
          \<lparr>current_age = 0, retirement_age = 1, life_expectancy = 2,
           current_annual_expenses = 112000000, current_investments = 0,
           current_annual_income = 0, risk_profile = ''moderate'',
           dependents = ''self_spouse'', inflation_rate = 0.06\<rparr> = Inr res
         \<and> 50000 < monthly_savings_rounded res \<and> 1000 dvd monthly_savings_rounded res)"
proof -
  let ?small = "\<lparr>current_age = 0, retirement_age = 1, life_expectancy = 2,
           current_annual_expenses = 1, current_investments = 0,
           current_annual_income = 0, risk_profile = ''moderate'',
           dependents = ''self_spouse'', inflation_rate = 0.06\<rparr>"
  let ?large = "\<lparr>current_age = 0, retirement_age = 1, life_expectancy = 2,
           current_annual_expenses = 112000000, current_investments = 0,
           current_annual_income = 0, risk_profile = ''moderate'',
           dependents = ''self_spouse'', inflation_rate = 0.06\<rparr>"
  note a = round_to_clean_figure_policy [where amount = 0 and inputs = ?small]
  note b = round_to_clean_figure_policy [where amount = 1300 and inputs = ?small]
  note c = round_to_clean_figure_policy [where amount = 51500 and inputs = ?large]
  have 1: "round_to_clean_figure 0 500 = Inr 0" using a by simp
  have 2: "\<exists>k. round_to_clean_figure 1300 500 = Inr (k * 500)
         \<and> (\<forall>j. \<bar>1300 - of_int (k * 500)\<bar> \<le> \<bar>(1300::real) - of_int (j * 500)\<bar>)"
    using b [THEN conjunct2, THEN conjunct1] by simp
  have 3: "\<exists>k. round_to_clean_figure 51500 500 = Inr (k * 1000)
         \<and> (\<forall>j. \<bar>51500 - of_int (k * 1000)\<bar> \<le> \<bar>(51500::real) - of_int (j * 1000)\<bar>)"
    using c [THEN conjunct2, THEN conjunct2, THEN conjunct1] by simp
  have 4: "\<exists>res. calculate_retirement_plan ?small = Inr res
         \<and> monthly_savings_rounded res \<le> 50000 \<and> 500 dvd monthly_savings_rounded res"
    using b [THEN conjunct2, THEN conjunct2, THEN conjunct2] one_year_plan_small by force
  have 5: "\<exists>res. calculate_retirement_plan ?large = Inr res
         \<and> 50000 < monthly_savings_rounded res \<and> 1000 dvd monthly_savings_rounded res"
    using c [THEN conjunct2, THEN conjunct2, THEN conjunct2] one_year_plan_large by blast
  show ?thesis using 1 2 3 4 5 by (intro conjI)
qed

subsection \<open>Monotonicity in the retirement age\<close>

text \<open>
  In exact arithmetic the comparison holds for every inflation rate \<open>\<ge> -1\<close> in the
  general branch of the corpus formula, by induction on the later retirement age.
\<close>

lemma retirement_age_mono:
  assumes "current_age i < a" and "a < a'" and "a' < life_expectancy i"
    and "- 1 \<le> inflation_rate i"
    and "\<not> \<bar>get_return_rate (risk_profile i) - inflation_rate i\<bar> < 0.0001"
  shows "\<exists>res res'. calculate_retirement_plan (i\<lparr>retirement_age := a\<rparr>) = Inr res
     \<and> calculate_retirement_plan (i\<lparr>retirement_age := a'\<rparr>) = Inr res'
     \<and> monthly_savings_required res' \<le> monthly_savings_required res
     \<and> monthly_savings_rounded res' \<le> monthly_savings_rounded res"
  using assms(2,3)
proof (induction a' rule: int_gr_induct)
  case base
  have "0 \<le> 1 + inflation_rate i" using assms(4) by simp
  then show ?case using plan_step [OF assms(1) base] assms(5) by blast
next
  case (step x)
  have g: "0 \<le> 1 + inflation_rate i" using assms(4) by simp
  have "x < life_expectancy i" using step.prems by simp
  then obtain res res1 where p: "calculate_retirement_plan (i\<lparr>retirement_age := a\<rparr>) = Inr res"
    and p1: "calculate_retirement_plan (i\<lparr>retirement_age := x\<rparr>) = Inr res1"
    and le1: "monthly_savings_required res1 \<le> monthly_savings_required res"
      "monthly_savings_rounded res1 \<le> monthly_savings_rounded res"
    using step.IH by blast
  have "current_age i < x" using assms(1) step.hyps by simp
  then obtain res2 res' where p2: "calculate_retirement_plan (i\<lparr>retirement_age := x\<rparr>) = Inr res2"
    and p': "calculate_retirement_plan (i\<lparr>retirement_age := x + 1\<rparr>) = Inr res'"
    and le2: "monthly_savings_required res' \<le> monthly_savings_required res2"
      "monthly_savings_rounded res' \<le> monthly_savings_rounded res2"
    using plan_step [OF _ step.prems g assms(5)] by blast
  have "res2 = res1" using p1 p2 by simp
  then show ?case using p p' le1 le2 by force
qed

text \<open>
  C5. Holding every other input field fixed, with the inflation rate at its locked value
  0.06: for retirement ages \<open>a < a'\<close> with \<open>current_age < a\<close> and
  \<open>a' < life_expectancy\<close>, the monthly savings of the plan returned at \<open>a'\<close>,
  exact and rounded, are less than or equal to those of the plan returned at \<open>a\<close>.
\<close>

theorem later_retirement_needs_less:
  assumes "current_age i < a" and "a < a'" and "a' < life_expectancy i"
    and "inflation_rate i = 0.06"
    and "calculate_retirement_plan (i\<lparr>retirement_age := a\<rparr>) = Inr res"
    and "calculate_retirement_plan (i\<lparr>retirement_age := a'\<rparr>) = Inr res'"
  shows "monthly_savings_required res' \<le> monthly_savings_required res
     \<and> monthly_savings_rounded res' \<le> monthly_savings_rounded res"
proof -
  have g: "- 1 \<le> inflation_rate i" using assms(4) by simp
  have ne: "\<not> \<bar>get_return_rate (risk_profile i) - inflation_rate i\<bar> < 0.0001"
    using get_return_rate_cases [of "risk_profile i"] assms(4) by auto
  obtain r r' where "calculate_retirement_plan (i\<lparr>retirement_age := a\<rparr>) = Inr r"
    and "calculate_retirement_plan (i\<lparr>retirement_age := a'\<rparr>) = Inr r'"
    and "monthly_savings_required r' \<le> monthly_savings_required r"
    and "monthly_savings_rounded r' \<le> monthly_savings_rounded r"
    using retirement_age_mono [OF assms(1-3) g ne] by blast
  then show ?thesis using assms(5,6) by simp
qed

theorem later_retirement_needs_less_witness:
  "\<exists>res res'. calculate_retirement_plan
       \<lparr>current_age = 35, retirement_age = 60, life_expectancy = 85,
        current_annual_expenses = 600000, current_investments = 500000,
        current_annual_income = 1200000, risk_profile = ''moderate'',
        dependents = ''self_spouse'', inflation_rate = 0.06\<rparr> = Inr res
     \<and> calculate_retirement_plan
       \<lparr>current_age = 35, retirement_age = 62, life_expectancy = 85,
        current_annual_expenses = 600000, current_investments = 500000,
        current_annual_income = 1200000, risk_profile = ''moderate'',
        dependents = ''self_spouse'', inflation_rate = 0.06\<rparr> = Inr res'
     \<and> monthly_savings_required res' \<le> monthly_savings_required res
     \<and> monthly_savings_rounded res' \<le> monthly_savings_rounded res"
proof -
  let ?i = "\<lparr>current_age = 35, retirement_age = 60, life_expectancy = 85,
        current_annual_expenses = 600000, current_investments = 500000,
        current_annual_income = 1200000, risk_profile = ''moderate'',
        dependents = ''self_spouse'', inflation_rate = 0.06\<rparr>"
  obtain res where p: "calculate_retirement_plan (?i\<lparr>retirement_age := 60\<rparr>) = Inr res"
    using plan_fields [of "?i\<lparr>retirement_age := 60\<rparr>"] by blast
  obtain res' where p': "calculate_retirement_plan (?i\<lparr>retirement_age := 62\<rparr>) = Inr res'"
    using plan_fields [of "?i\<lparr>retirement_age := 62\<rparr>"] by blast
  have "monthly_savings_required res' \<le> monthly_savings_required res
     \<and> monthly_savings_rounded res' \<le> monthly_savings_rounded res"
    using later_retirement_needs_less [where i = ?i and a = 60 and a' = 62, OF _ _ _ _ p p']
    by simp
  then show ?thesis using p p' by auto
qed

end
